theory Spec2Isabelle
  imports Complex_Main
begin

section \<open>Tables\<close>

text \<open>
  The program of \<^verbatim>\<open>change-timeseries.py\<close> passes pandas data frames from stage to
  stage. A frame is modelled as the ordered list of its named columns; a column is a
  series of one dtype: \<^verbatim>\<open>object\<close> (strings), \<^verbatim>\<open>datetime64[ns]\<close> (a timestamp is the
  number of nanoseconds since 1970-01-01 00:00:00, as pandas stores it), \<^verbatim>\<open>int64\<close>,
  \<^verbatim>\<open>float64\<close> or \<^verbatim>\<open>bool\<close>. A cell of an object, datetime or float column may be
  missing: \<open>None\<close> is \<^verbatim>\<open>NaN\<close>, and \<^verbatim>\<open>NaT\<close> in a datetime column. An integer column has
  no missing cell. The row index of a frame and the time zone of a datetime column are
  not modelled.
\<close>

datatype series =
    ObjectCol "string option list"
  | DatetimeCol "int option list"
  | IntCol "int list"
  | FloatCol "real option list"
  | BoolCol "bool list"

type_synonym frame = "(string \<times> series) list"

fun series_len :: "series \<Rightarrow> nat" where
  "series_len (ObjectCol xs) = length xs"
| "series_len (DatetimeCol ts) = length ts"
| "series_len (IntCol ns) = length ns"
| "series_len (FloatCol xs) = length xs"
| "series_len (BoolCol bs) = length bs"

text \<open>\<^verbatim>\<open>df.columns\<close>, \<^verbatim>\<open>df.shape[1]\<close>, \<^verbatim>\<open>df[name]\<close> and \<^verbatim>\<open>df[name] = s\<close>.\<close>

definition columns :: "frame \<Rightarrow> string list" where
  "columns df = map fst df"

definition ncols :: "frame \<Rightarrow> nat" where
  "ncols df = length df"

definition getitem :: "frame \<Rightarrow> string \<Rightarrow> series option" where
  "getitem df name = map_of df name"

fun setitem :: "frame \<Rightarrow> string \<Rightarrow> series \<Rightarrow> frame" where
  "setitem [] name s = [(name, s)]"
| "setitem ((n, c) # df) name s =
     (if n = name then (n, s) # df else (n, c) # setitem df name s)"

section \<open>Exceptions\<close>

text \<open>
  Every \<^verbatim>\<open>raise\<close> of the program is a value. The Python class of the exception is the
  constructor; the text of its message is a value of \<open>message\<close>, which keeps what the
  f-string interpolates. An exception raised inside a library call is a \<open>lib_error\<close>
  (its class or its text). The specification's names stand for these classes: NotFound is
  \<^verbatim>\<open>FileNotFoundError\<close>, FormatError and ParseError are \<^verbatim>\<open>ValueError\<close>, MissingColumn
  and InvalidKind are \<^verbatim>\<open>KeyError\<close>, TypeMismatch is \<^verbatim>\<open>TypeError\<close>.
\<close>

type_synonym lib_error = string

datatype message =
    FileMissing string
  | CsvReadFailed lib_error
  | OneColumnExpected
  | TimestampColumnMissing
  | ConversionFailed lib_error
  | NotDatetime
  | ColumnsMissing "string list"
  | KindsNotAllowed "string list"

datatype exn =
    FileNotFoundError message
  | ValueError message
  | KeyError message
  | TypeError message
  | IndexError
  | AttributeError
  | Raised lib_error

section \<open>Source loader\<close>

text \<open>
  The file system maps a path to the file stored there. A file is either one on which
  \<^verbatim>\<open>pd.read_csv\<close> raises before it has the records (a directory, bytes that are no
  text), or the list of its records: the non-blank lines, each split into its fields.
\<close>

datatype csv_file = Unreadable lib_error | Records "string list list"

type_synonym filesystem = "string \<Rightarrow> csv_file option"

text \<open>
  \<^verbatim>\<open>pd.read_csv(path)\<close> with its default arguments, on the records of a file.
  \<^item> A file with no record raises \<^verbatim>\<open>EmptyDataError\<close>.
  \<^item> \<^verbatim>\<open>header='infer'\<close>: the first record gives the columns, one for each of its
    fields, and the records after it are the rows.
  \<^item> The width of the rows is the number of fields of the first row, or of the header
    when that is larger. A later row with more fields raises \<^verbatim>\<open>ParserError\<close>; a row with
    fewer fields is filled up with empty fields.
  \<^item> When the rows are wider than the header, the fields in front become the row index,
    which is not modelled, and the columns are read from the fields after them.
  \<^item> The fields of a column become a series by the inference of pandas (which fields
    are missing values, and whether the column is of integers, floats, booleans or
    strings). The inference is a parameter, \<open>infer\<close>.

  The result is the list of the columns. The names that pandas gives them (the fields of
  the header, made unique) are not modelled: line 32 overwrites them.
\<close>

type_synonym infer_fn = "string list \<Rightarrow> series"

definition field_at :: "string list \<Rightarrow> nat \<Rightarrow> string" where
  "field_at r k = (if k < length r then r ! k else [])"

definition row_width :: "string list \<Rightarrow> string list list \<Rightarrow> nat" where
  "row_width names rows =
     (case rows of [] \<Rightarrow> length names | r # _ \<Rightarrow> max (length names) (length r))"

fun pd_read_csv :: "infer_fn \<Rightarrow> csv_file \<Rightarrow> lib_error + series list" where
  "pd_read_csv infer (Unreadable e) = Inl e"
| "pd_read_csv infer (Records []) = Inl ''EmptyDataError''"
| "pd_read_csv infer (Records (names # rows)) =
     (let width = row_width names rows; lead = width - length names
      in if \<exists>r \<in> set rows. width < length r then Inl ''ParserError''
         else Inr (map (\<lambda>j. infer (map (\<lambda>r. field_at r (lead + j)) rows))
                    [0..<length names]))"

text \<open>
  \<^verbatim>\<open>load_dataframe_from_file\<close> (lines 21 to 34): the existence check, the read inside
  \<^verbatim>\<open>try\<close>, the check of the number of columns (\<^verbatim>\<open>df.shape[1]\<close>), and the naming of
  the one column.
\<close>

definition load_dataframe_from_file :: "infer_fn \<Rightarrow> filesystem \<Rightarrow> string \<Rightarrow> exn + frame" where
  "load_dataframe_from_file infer fs path =
     (case fs path of
        None \<Rightarrow> Inl (FileNotFoundError (FileMissing path))
      | Some f \<Rightarrow>
          (case pd_read_csv infer f of
             Inl e \<Rightarrow> Inl (ValueError (CsvReadFailed e))
           | Inr cols \<Rightarrow>
               if length cols \<noteq> 1 then Inl (ValueError OneColumnExpected)
               else Inr (zip [''timestamp''] cols)))"

text \<open>
  \<^verbatim>\<open>create_periodic_dataframe\<close> (lines 56 to 66). \<^verbatim>\<open>pd.date_range\<close> is a parameter: it
  returns the timestamps or raises. What the function prints is returned with its
  result; the result \<open>None\<close> is Python's \<^verbatim>\<open>None\<close>, which a function returns when it falls
  off its end.
\<close>

type_synonym date_range_fn = "string \<Rightarrow> int \<Rightarrow> string \<Rightarrow> lib_error + int list"

datatype printed = CreationFailed lib_error | Table frame

definition create_periodic_dataframe ::
  "date_range_fn \<Rightarrow> string \<Rightarrow> int \<Rightarrow> string \<Rightarrow> printed list \<times> frame option" where
  "create_periodic_dataframe date_range start_timedate_point periods freq =
     (case date_range start_timedate_point periods freq of
        Inr timestamps \<Rightarrow> ([], Some [(''timestamp'', DatetimeCol (map Some timestamps))])
      | Inl e \<Rightarrow> ([CreationFailed e], None))"

section \<open>Temporal normalizer\<close>

text \<open>
  \<^verbatim>\<open>pd.to_datetime(s, errors="raise")\<close>. A datetime series is returned as it is. What
  pandas does with a series of another dtype (which values it converts, which it turns
  into \<^verbatim>\<open>NaT\<close>, on which it raises, with the format it infers from the values) is a
  parameter, \<open>conv\<close>.
\<close>

type_synonym convert_fn = "series \<Rightarrow> lib_error + series"

fun pd_to_datetime :: "convert_fn \<Rightarrow> series \<Rightarrow> lib_error + series" where
  "pd_to_datetime conv (DatetimeCol ts) = Inr (DatetimeCol ts)"
| "pd_to_datetime conv s = conv s"

text \<open>\<^verbatim>\<open>convert_to_datetime\<close> (lines 85 to 95).\<close>

definition convert_to_datetime :: "convert_fn \<Rightarrow> frame \<Rightarrow> exn + frame" where
  "convert_to_datetime conv df =
     (case getitem df ''timestamp'' of
        None \<Rightarrow> Inl (KeyError TimestampColumnMissing)
      | Some col \<Rightarrow>
          (case pd_to_datetime conv col of
             Inl e \<Rightarrow> Inl (ValueError (ConversionFailed e))
           | Inr col' \<Rightarrow> Inr (setitem df ''timestamp'' col')))"

section \<open>Calendar extractor\<close>

text \<open>
  The accessors of \<^verbatim>\<open>Series.dt\<close> on a timestamp \<open>t\<close>, in nanoseconds since the epoch.
  The day number is \<open>t div ns_per_day\<close> (\<open>div\<close> on \<open>int\<close> rounds down, so instants before
  1970 fall on the right day). The civil date of a day number is computed in the
  proleptic Gregorian calendar: day 0 is 1970-01-01, which is 719468 days after
  0000-03-01; an era is 400 years (146097 days) that start on 1 March, a century of an
  era has 36524 days but for the last one, a cycle of four years has 1461 days. Counted
  from 1 March, the leap day is the last day of its year, and the month follows from the
  day of the year alone.
\<close>

definition ns_per_hour :: int where
  "ns_per_hour = 3600000000000"

definition ns_per_day :: int where
  "ns_per_day = 24 * ns_per_hour"

definition day_number :: "int \<Rightarrow> int" where
  "day_number t = t div ns_per_day"

definition era :: "int \<Rightarrow> int" where
  "era z = (z + 719468) div 146097"

definition day_of_era :: "int \<Rightarrow> int" where
  "day_of_era z = (z + 719468) mod 146097"

definition century_of_era :: "int \<Rightarrow> int" where
  "century_of_era z = min 3 (day_of_era z div 36524)"

definition day_of_century :: "int \<Rightarrow> int" where
  "day_of_century z = day_of_era z - 36524 * century_of_era z"

definition year_of_cycle :: "int \<Rightarrow> int" where
  "year_of_cycle z = min 3 ((day_of_century z mod 1461) div 365)"

definition day_of_year :: "int \<Rightarrow> int" where
  "day_of_year z = day_of_century z mod 1461 - 365 * year_of_cycle z"

definition month_index :: "int \<Rightarrow> int" where
  "month_index z = (5 * day_of_year z + 2) div 153"

definition dt_month :: "int \<Rightarrow> int" where
  "dt_month t =
     (let mp = month_index (day_number t) in if mp < 10 then mp + 3 else mp - 9)"

definition dt_day :: "int \<Rightarrow> int" where
  "dt_day t =
     (let z = day_number t in day_of_year z - (153 * month_index z + 2) div 5 + 1)"

definition dt_year :: "int \<Rightarrow> int" where
  "dt_year t =
     (let z = day_number t
      in 400 * era z + 100 * century_of_era z + 4 * (day_of_century z div 1461)
         + year_of_cycle z + (if dt_month t \<le> 2 then 1 else 0))"

definition dt_hour :: "int \<Rightarrow> int" where
  "dt_hour t = (t div ns_per_hour) mod 24"

text \<open>\<^verbatim>\<open>Series.dt.quarter\<close> is computed from the month.\<close>

definition dt_quarter :: "int \<Rightarrow> int" where
  "dt_quarter t = (dt_month t - 1) div 3 + 1"

text \<open>1970-01-01 was a Thursday, day 3 of a week that starts on Monday.\<close>

definition dt_dayofweek :: "int \<Rightarrow> int" where
  "dt_dayofweek t = (day_number t + 3) mod 7"

definition day_names :: "string list" where
  "day_names =
     [''Monday'', ''Tuesday'', ''Wednesday'', ''Thursday'', ''Friday'', ''Saturday'',
      ''Sunday'']"

definition dt_day_name :: "int \<Rightarrow> string" where
  "dt_day_name t = day_names ! nat (dt_dayofweek t)"

text \<open>
  A column of numbers of which some may be missing: \<^verbatim>\<open>int64\<close> when none is,
  \<^verbatim>\<open>float64\<close> with \<^verbatim>\<open>NaN\<close> otherwise. An accessor of \<^verbatim>\<open>Series.dt\<close> that gives a
  number (\<^verbatim>\<open>day\<close>, \<^verbatim>\<open>month\<close>, \<^verbatim>\<open>year\<close>, \<^verbatim>\<open>hour\<close>, \<^verbatim>\<open>quarter\<close>, \<^verbatim>\<open>dayofweek\<close>) gives
  such a column, with no number where the timestamp is \<^verbatim>\<open>NaT\<close>.
\<close>

definition num_col :: "int option list \<Rightarrow> series" where
  "num_col xs =
     (if None \<in> set xs then FloatCol (map (map_option real_of_int) xs)
      else IntCol (map the xs))"

definition dt_field :: "(int \<Rightarrow> int) \<Rightarrow> int option list \<Rightarrow> series" where
  "dt_field f ts = num_col (map (map_option f) ts)"

text \<open>\<^verbatim>\<open>Series.dt.day_name().str[:3]\<close>: a missing timestamp has no name.\<close>

definition dt_short_names :: "int option list \<Rightarrow> series" where
  "dt_short_names ts = ObjectCol (map (map_option (\<lambda>t. take 3 (dt_day_name t))) ts)"

text \<open>
  \<^verbatim>\<open>s.isin(values).astype(int)\<close> on the cells of a column of numbers: a missing number
  is in no list.
\<close>

definition isin_as_int :: "int option list \<Rightarrow> int list \<Rightarrow> int list" where
  "isin_as_int xs values = map (\<lambda>x. if x \<in> set (map Some values) then 1 else 0) xs"

text \<open>
  \<^verbatim>\<open>extract_parts\<close> (lines 122 to 141). The new frame is built column by column, in
  the order of the assignments; \<^verbatim>\<open>is_weekend\<close> is computed from the cells of the
  \<^verbatim>\<open>weekday\<close> column of the new frame.
\<close>

definition extract_parts :: "frame \<Rightarrow> exn + frame" where
  "extract_parts df =
     (case getitem df ''timestamp'' of
        None \<Rightarrow> Inl (KeyError TimestampColumnMissing)
      | Some (DatetimeCol ts) \<Rightarrow>
          (let weekday = map (map_option dt_dayofweek) ts
           in Inr [(''day'', dt_field dt_day ts),
                   (''month'', dt_field dt_month ts),
                   (''year'', dt_field dt_year ts),
                   (''hour'', dt_field dt_hour ts),
                   (''quarter'', dt_field dt_quarter ts),
                   (''weekday'', num_col weekday),
                   (''weekday_name'', dt_short_names ts),
                   (''is_weekend'', IntCol (isin_as_int weekday [5, 6]))])
      | Some _ \<Rightarrow> Inl (TypeError NotDatetime))"

text \<open>
  The instant that a string \<^verbatim>\<open>YYYY-MM-DD HH:MM:SS\<close> denotes, as a timestamp: the days
  from 1970-01-01 to the civil date, counted with the years of an era and the days of
  the months from March on, then the time of the day.
\<close>

definition days_from_civil :: "int \<Rightarrow> int \<Rightarrow> int \<Rightarrow> int" where
  "days_from_civil y m d =
     (let y' = (if m \<le> 2 then y - 1 else y);
          yoe = y' mod 400;
          mp = (if 2 < m then m - 3 else m + 9);
          doy = (153 * mp + 2) div 5 + d - 1
      in (y' div 400) * 146097 + (yoe * 365 + yoe div 4 - yoe div 100 + doy) - 719468)"

definition timestamp_of :: "int \<Rightarrow> int \<Rightarrow> int \<Rightarrow> int \<Rightarrow> int \<Rightarrow> int \<Rightarrow> int" where
  "timestamp_of y m d hh mm ss =
     (((days_from_civil y m d * 24 + hh) * 60 + mm) * 60 + ss) * 1000000000"

section \<open>Categorical visualizer\<close>

text \<open>
  The plotting library is a parameter: \<^verbatim>\<open>plt.subplots(1, n, ...)\<close> and the call
  \<^verbatim>\<open>series.value_counts().plot(kind=..., ax=..., title=...)\<close> each succeed (\<open>None\<close>) or
  raise. What the program has drawn is a canvas: the panels plotted so far, and whether
  \<^verbatim>\<open>plt.show()\<close> has been reached.
\<close>

record panel =
  panel_data :: series
  panel_kind :: string
  panel_title :: string

record canvas =
  panels :: "panel list"
  shown :: bool

record backend =
  subplots :: "nat \<Rightarrow> lib_error option"
  plot :: "series \<Rightarrow> string \<Rightarrow> string \<Rightarrow> lib_error option"

definition allowed_kinds :: "string list" where
  "allowed_kinds =
     [''line'', ''bar'', ''barh'', ''kde'', ''density'', ''area'', ''hist'', ''box'', ''pie'',
      ''scatter'', ''hexbin'']"

text \<open>
  The loop of lines 171 and 172 over the indices of \<^verbatim>\<open>category\<close>. In the call of line
  172 Python evaluates \<^verbatim>\<open>df[category[i]]\<close>, then \<^verbatim>\<open>kind[i]\<close>, then \<^verbatim>\<open>title[i]\<close>; an index
  past the end of a list raises \<^verbatim>\<open>IndexError\<close>.
\<close>

fun plot_loop ::
  "backend \<Rightarrow> frame \<Rightarrow> string list \<Rightarrow> string list \<Rightarrow> string list \<Rightarrow> nat list \<Rightarrow>
   panel list \<Rightarrow> panel list \<times> exn option" where
  "plot_loop b df category kind title [] drawn = (drawn, None)"
| "plot_loop b df category kind title (i # rest) drawn =
     (case getitem df (category ! i) of
        None \<Rightarrow> (drawn, Some (KeyError (ColumnsMissing [category ! i])))
      | Some col \<Rightarrow>
          if length kind \<le> i then (drawn, Some IndexError)
          else if length title \<le> i then (drawn, Some IndexError)
          else
            (case plot b col (kind ! i) (title ! i) of
               Some e \<Rightarrow> (drawn, Some (Raised e))
             | None \<Rightarrow>
                 plot_loop b df category kind title rest
                   (drawn @ [\<lparr>panel_data = col, panel_kind = kind ! i,
                              panel_title = title ! i\<rparr>])))"

text \<open>\<^verbatim>\<open>display\<close> (lines 157 to 174).\<close>

definition display ::
  "backend \<Rightarrow> frame \<Rightarrow> string list \<Rightarrow> string list \<Rightarrow> string list \<Rightarrow>
   canvas \<times> exn option" where
  "display b df category kind title =
     (let missing = filter (\<lambda>cat. cat \<notin> set (columns df)) category;
          not_allowed = filter (\<lambda>k. k \<notin> set allowed_kinds) kind
      in if missing \<noteq> [] then
           (\<lparr>panels = [], shown = False\<rparr>, Some (KeyError (ColumnsMissing missing)))
         else if not_allowed \<noteq> [] then
           (\<lparr>panels = [], shown = False\<rparr>, Some (KeyError (KindsNotAllowed not_allowed)))
         else
           (case subplots b (length category) of
              Some e \<Rightarrow> (\<lparr>panels = [], shown = False\<rparr>, Some (Raised e))
            | None \<Rightarrow>
                (case plot_loop b df category kind title [0..<length category] [] of
                   (drawn, Some e) \<Rightarrow> (\<lparr>panels = drawn, shown = False\<rparr>, Some e)
                 | (drawn, None) \<Rightarrow> (\<lparr>panels = drawn, shown = True\<rparr>, None))))"

section \<open>The two entry points\<close>

text \<open>
  \<^verbatim>\<open>example_main_synthetic\<close> (lines 183 to 193) and \<^verbatim>\<open>main_read_file\<close> (lines 202 to
  208). Each returns what it printed, the canvas and the exception that ended it, if
  any. When \<^verbatim>\<open>create_periodic_dataframe\<close> has returned \<^verbatim>\<open>None\<close>, reading \<^verbatim>\<open>df.columns\<close>
  in \<^verbatim>\<open>convert_to_datetime\<close> raises \<^verbatim>\<open>AttributeError\<close>.
\<close>

definition blank :: canvas where
  "blank = \<lparr>panels = [], shown = False\<rparr>"

definition show_result ::
  "backend \<Rightarrow> printed list \<Rightarrow> frame \<Rightarrow> printed list \<times> canvas \<times> exn option" where
  "show_result b out result_df =
     (out @ [Table result_df],
      display b result_df [''weekday_name'', ''weekday_name''] [''bar'', ''pie'']
        [''Activity Count by Day of Week'', ''Days of the week''])"

definition example_main_synthetic ::
  "date_range_fn \<Rightarrow> convert_fn \<Rightarrow> backend \<Rightarrow> printed list \<times> canvas \<times> exn option" where
  "example_main_synthetic date_range conv b =
     (case create_periodic_dataframe date_range ''2025-09-16 02:35:00'' 15 ''14h'' of
        (out, None) \<Rightarrow> (out, blank, Some AttributeError)
      | (out, Some input_df) \<Rightarrow>
          (case convert_to_datetime conv input_df of
             Inl e \<Rightarrow> (out, blank, Some e)
           | Inr transformed_df \<Rightarrow>
               (case extract_parts transformed_df of
                  Inl e \<Rightarrow> (out, blank, Some e)
                | Inr result_df \<Rightarrow> show_result b out result_df)))"

definition main_read_file ::
  "infer_fn \<Rightarrow> filesystem \<Rightarrow> convert_fn \<Rightarrow> backend \<Rightarrow> string \<Rightarrow>
   printed list \<times> canvas \<times> exn option" where
  "main_read_file infer fs conv b input_csv =
     (case load_dataframe_from_file infer fs input_csv of
        Inl e \<Rightarrow> ([], blank, Some e)
      | Inr input_df \<Rightarrow>
          (case convert_to_datetime conv input_df of
             Inl e \<Rightarrow> ([], blank, Some e)
           | Inr transformed_df \<Rightarrow>
               (case extract_parts transformed_df of
                  Inl e \<Rightarrow> ([], blank, Some e)
                | Inr result_df \<Rightarrow> show_result b [] result_df)))"

text \<open>
  The timestamps of the example of \<^verbatim>\<open>example_main_synthetic\<close>: 15 instants from
  2025-09-16 02:35:00 on, 14 hours apart.
\<close>

definition example_stamps :: "int list" where
  "example_stamps =
     map (\<lambda>i. timestamp_of 2025 9 16 2 35 0 + int i * (14 * ns_per_hour)) [0..<15]"

section \<open>Sample inputs\<close>

text \<open>
  Concrete inputs on which the theorems below are instantiated.
  \<^item> Two timestamps (Saturday 2025-09-20 and Monday 2025-12-01), a table with them in
    its timestamp column, and a derived table.
  \<^item> A plotting library that never raises.
  \<^item> A file system with six files: a well-formed one, one without header line, one
    with two columns, one with no record, one whose values are integer literals, and
    one whose rows have a field more than its header.
  \<^item> An inference that does on the columns of these files what pandas does: the two
    integer literals become a column of integers, the other fields stay strings.
  \<^item> A conversion that does on three columns of strings what pandas does: a date
    becomes its timestamp, the empty string becomes \<^verbatim>\<open>NaT\<close>, and the word \<^verbatim>\<open>soon\<close>
    raises.

  The table \<open>example_result\<close> is what the example run prints.
\<close>

definition sample_stamps :: "int list" where
  "sample_stamps = [timestamp_of 2025 9 20 10 0 0, timestamp_of 2025 12 1 8 30 0]"

definition sample_frame :: frame where
  "sample_frame = [(''timestamp'', DatetimeCol (map Some sample_stamps))]"

definition sample_table :: frame where
  "sample_table =
     [(''weekday'', IntCol [5, 0]), (''weekday_name'', ObjectCol [Some ''Sat'', Some ''Mon''])]"

definition quiet_backend :: backend where
  "quiet_backend = \<lparr>subplots = (\<lambda>n. None), plot = (\<lambda>col k t. None)\<rparr>"



definition sample_conv :: convert_fn where
  "sample_conv s =
     (if s = ObjectCol [Some ''2025-09-16 02:35:00''] then
        Inr (DatetimeCol [Some (timestamp_of 2025 9 16 2 35 0)])
      else if s = ObjectCol [Some ''2025-09-16 02:35:00'', Some ''''] then
        Inr (DatetimeCol [Some (timestamp_of 2025 9 16 2 35 0), None])
      else Inl ''ValueError'')"

definition example_result :: frame where
  "example_result =
     [(''day'', IntCol [16, 16, 17, 17, 18, 19, 19, 20, 20, 21, 21, 22, 23, 23, 24]),
      (''month'', IntCol [9, 9, 9, 9, 9, 9, 9, 9, 9, 9, 9, 9, 9, 9, 9]),
      (''year'',
       IntCol [2025, 2025, 2025, 2025, 2025, 2025, 2025, 2025, 2025, 2025, 2025, 2025,
         2025, 2025, 2025]),
      (''hour'', IntCol [2, 16, 6, 20, 10, 0, 14, 4, 18, 8, 22, 12, 2, 16, 6]),
      (''quarter'', IntCol [3, 3, 3, 3, 3, 3, 3, 3, 3, 3, 3, 3, 3, 3, 3]),
      (''weekday'', IntCol [1, 1, 2, 2, 3, 4, 4, 5, 5, 6, 6, 0, 1, 1, 2]),
      (''weekday_name'',
       ObjectCol
         (map Some
           [''Tue'', ''Tue'', ''Wed'', ''Wed'', ''Thu'', ''Fri'', ''Fri'', ''Sat'', ''Sat'',
            ''Sun'', ''Sun'', ''Mon'', ''Tue'', ''Tue'', ''Wed''])),
      (''is_weekend'', IntCol [0, 0, 0, 0, 0, 0, 0, 1, 1, 1, 1, 0, 0, 0, 0])]"

section \<open>Calendar facts\<close>

text \<open>The ranges of the calendar fields, for every timestamp.\<close>

lemma day_of_year_range: "0 \<le> day_of_year z \<and> day_of_year z \<le> 365"
proof -
  define r where "r = day_of_century z mod 1461"
  define q where "q = r div 365"
  have r: "0 \<le> r" "r \<le> 1460" by (simp_all add: r_def)
  have split: "r = 365 * q + r mod 365" by (simp add: q_def)
  have m: "0 \<le> r mod 365" "r mod 365 < 365" by simp_all
  have doy: "day_of_year z = r - 365 * min 3 q"
    by (simp add: day_of_year_def year_of_cycle_def r_def q_def)
  show ?thesis
  proof (cases "q \<le> 3")
    case True
    then have "day_of_year z = r mod 365" using doy split by (simp add: min_def)
    with m show ?thesis by simp
  next
    case False
    then have "4 \<le> q" by simp
    with split m r have "r = 1460" by linarith
    with False doy show ?thesis by (simp add: min_def)
  qed
qed

lemma month_index_range: "0 \<le> month_index z \<and> month_index z \<le> 11"
proof -
  define d where "d = day_of_year z"
  have d: "0 \<le> d" "d \<le> 365" using day_of_year_range [of z] by (simp_all add: d_def)
  have "0 \<le> (5 * d + 2) div 153" using d by (simp add: pos_imp_zdiv_nonneg_iff)
  moreover have "(5 * d + 2) div 153 \<le> 1827 div 153" using d by (intro zdiv_mono1) simp_all
  ultimately show ?thesis by (simp add: month_index_def d_def)
qed

lemma dt_month_range: "1 \<le> dt_month t \<and> dt_month t \<le> 12"
  using month_index_range [of "day_number t"] by (simp add: dt_month_def Let_def)

lemma dt_hour_range: "0 \<le> dt_hour t \<and> dt_hour t \<le> 23"
  by (simp add: dt_hour_def)


lemma quarter_ceiling: "(m - 1) div 3 + 1 = \<lceil>real_of_int m / 3\<rceil>" for m :: int
proof -
  have "\<lceil>real_of_int m / real_of_int 3\<rceil> = - ((- m) div 3)"
    by (rule ceiling_divide_eq_div)
  moreover have "- ((- m) div 3) = (m - 1) div 3 + 1" by arith
  ultimately show ?thesis by simp
qed

lemma dt_quarter_range: "1 \<le> dt_quarter t \<and> dt_quarter t \<le> 4"
proof -
  have m: "1 \<le> dt_month t" "dt_month t \<le> 12" using dt_month_range [of t] by simp_all
  have "0 \<le> (dt_month t - 1) div 3" using m by (simp add: pos_imp_zdiv_nonneg_iff)
  moreover have "(dt_month t - 1) div 3 \<le> 11 div 3" using m by (intro zdiv_mono1) simp_all
  ultimately show ?thesis by (simp add: dt_quarter_def)
qed

lemma quarter_of_month:
  fixes m :: int
  shows "(m \<in> {1, 2, 3} \<longrightarrow> (m - 1) div 3 + 1 = 1) \<and>
         (m \<in> {4, 5, 6} \<longrightarrow> (m - 1) div 3 + 1 = 2) \<and>
         (m \<in> {7, 8, 9} \<longrightarrow> (m - 1) div 3 + 1 = 3) \<and>
         (m \<in> {10, 11, 12} \<longrightarrow> (m - 1) div 3 + 1 = 4)"
  by auto

lemma dt_quarter_ceiling: "dt_quarter t = \<lceil>real_of_int (dt_month t) / 3\<rceil>"
  unfolding dt_quarter_def by (rule quarter_ceiling)

lemma dt_quarter_of_month:
  "(dt_month t \<in> {1, 2, 3} \<longrightarrow> dt_quarter t = 1) \<and>
   (dt_month t \<in> {4, 5, 6} \<longrightarrow> dt_quarter t = 2) \<and>
   (dt_month t \<in> {7, 8, 9} \<longrightarrow> dt_quarter t = 3) \<and>
   (dt_month t \<in> {10, 11, 12} \<longrightarrow> dt_quarter t = 4)"
  unfolding dt_quarter_def by (rule quarter_of_month)

text \<open>The example start and the table of the example run, by evaluation.\<close>

lemma example_start: "timestamp_of 2025 9 16 2 35 0 = 1757990100000000000"
  by code_simp

lemma example_length: "length example_stamps = 15"
  by (simp add: example_stamps_def)

lemma example_first_fields:
  "dt_year 1757990100000000000 = 2025 \<and> dt_month 1757990100000000000 = 9 \<and>
   dt_day 1757990100000000000 = 16 \<and> dt_hour 1757990100000000000 = 2 \<and>
   dt_dayofweek 1757990100000000000 = 1"
  by code_simp

lemma example_table:
  "extract_parts [(''timestamp'', DatetimeCol (map Some example_stamps))] = Inr example_result"
  by code_simp

lemma example_result_shape:
  "ncols example_result = 8 \<and> (\<forall>c\<in>set example_result. series_len (snd c) = 15)"
  by (simp add: example_result_def ncols_def)

lemma example_result_names:
  "\<exists>names. getitem example_result ''weekday_name'' = Some (ObjectCol names) \<and>
            names ! 0 = Some ''Tue''"
  by (simp add: example_result_def getitem_def)

section \<open>Facts about the stages\<close>

lemma getitem_in_columns: "getitem df name \<noteq> None \<longleftrightarrow> name \<in> set (columns df)"
  by (simp add: getitem_def columns_def map_of_eq_None_iff)






lemma num_col_some: "num_col (map Some xs) = IntCol xs"
  by (auto simp: num_col_def comp_def)

lemma dt_field_some: "dt_field f (map Some ts) = IntCol (map f ts)"
  using num_col_some [of "map f ts"] by (simp add: dt_field_def comp_def)

lemma extract_parts_datetime:
  "getitem df ''timestamp'' = Some (DatetimeCol (map Some ts)) \<Longrightarrow>
   extract_parts df =
     Inr [(''day'', IntCol (map dt_day ts)),
          (''month'', IntCol (map dt_month ts)),
          (''year'', IntCol (map dt_year ts)),
          (''hour'', IntCol (map dt_hour ts)),
          (''quarter'', IntCol (map dt_quarter ts)),
          (''weekday'', IntCol (map dt_dayofweek ts)),
          (''weekday_name'', ObjectCol (map (\<lambda>t. Some (take 3 (dt_day_name t))) ts)),
          (''is_weekend'', IntCol (isin_as_int (map Some (map dt_dayofweek ts)) [5, 6]))]"
  using num_col_some [of "map dt_dayofweek ts"]
  by (simp add: extract_parts_def Let_def dt_field_some dt_short_names_def comp_def)


lemma filter_missing_empty:
  "filter (\<lambda>cat. cat \<notin> set (columns df)) category = [] \<longleftrightarrow> set category \<subseteq> set (columns df)"
  by (auto simp: filter_empty_conv)

lemma filter_kinds_empty:
  "filter (\<lambda>k. k \<notin> set allowed_kinds) kind = [] \<longleftrightarrow> set kind \<subseteq> set allowed_kinds"
  by (auto simp: filter_empty_conv)

lemma plot_loop_short:
  assumes cols: "set category \<subseteq> set (columns df)"
    and ok: "\<forall>col k t. plot b col k t = None"
    and m: "m = min (length kind) (length title)"
  shows "i \<le> m \<Longrightarrow> m < n \<Longrightarrow> n \<le> length category \<Longrightarrow>
         \<exists>drawn'. plot_loop b df category kind title [i..<n] drawn = (drawn', Some IndexError) \<and>
                  length drawn' = length drawn + (m - i)"
proof (induction "m - i" arbitrary: i drawn)
  case 0
  then have i: "i = m" by simp
  with 0 have lt: "i < n" by simp
  from 0 lt have "category ! i \<in> set (columns df)" using cols by (auto simp: subset_iff)
  then obtain col where col: "getitem df (category ! i) = Some col"
    using getitem_in_columns [of df "category ! i"] by auto
  have "length kind \<le> i \<or> length title \<le> i" using i m by (auto simp: min_def)
  with col lt i show ?case by (auto simp: upt_conv_Cons)
next
  case (Suc k)
  then have i: "i < m" by simp
  with Suc have lt: "i < n" by simp
  from Suc lt have "category ! i \<in> set (columns df)" using cols by (auto simp: subset_iff)
  then obtain col where col: "getitem df (category ! i) = Some col"
    using getitem_in_columns [of df "category ! i"] by auto
  from i m have lens: "i < length kind" "i < length title" by simp_all
  let ?p = "\<lparr>panel_data = col, panel_kind = kind ! i, panel_title = title ! i\<rparr>"
  have step: "plot_loop b df category kind title [i..<n] drawn =
      plot_loop b df category kind title [Suc i..<n] (drawn @ [?p])"
    using col lt lens ok by (simp add: upt_conv_Cons)
  from Suc have "k = m - Suc i" by simp
  from Suc.hyps(1) [OF this, of "drawn @ [?p]"] i Suc.prems
  obtain drawn' where
    "plot_loop b df category kind title [Suc i..<n] (drawn @ [?p]) = (drawn', Some IndexError)"
    "length drawn' = length (drawn @ [?p]) + (m - Suc i)" by auto
  with step i show ?case by auto
qed

section \<open>The claims\<close>

text \<open>
  C1. Whenever the construction of the timestamps fails inside
  \<^verbatim>\<open>create_periodic_dataframe\<close>, the function catches the exception, prints a message
  with its text and returns \<^verbatim>\<open>None\<close>: the caller gets no table and no exception.
\<close>

theorem create_periodic_dataframe_failure:
  "date_range start periods freq = Inl e \<Longrightarrow>
   create_periodic_dataframe date_range start periods freq = ([CreationFailed e], None)"
  by (simp add: create_periodic_dataframe_def)

theorem create_periodic_dataframe_failure_witness:
  "create_periodic_dataframe (\<lambda>start periods freq. Inl ''Unknown datetime string format'')
     ''yesterday'' 15 ''14h'' = ([CreationFailed ''Unknown datetime string format''], None)"
  by (rule create_periodic_dataframe_failure) simp



text \<open>
  C3. On a table whose timestamp column is of datetime type and has no missing
  timestamp, the month of every row is between 1 and 12 and the quarter is the ceiling
  of the month divided by 3: 1 for the months 1 to 3, 2 for 4 to 6, 3 for 7 to 9, 4 for
  10 to 12.
\<close>

theorem extract_parts_quarter:
  assumes "getitem df ''timestamp'' = Some (DatetimeCol (map Some ts))"
  shows "\<exists>out month quarter.
           extract_parts df = Inr out \<and>
           getitem out ''month'' = Some (IntCol month) \<and>
           getitem out ''quarter'' = Some (IntCol quarter) \<and>
           length month = length ts \<and> length quarter = length ts \<and>
           (\<forall>i<length ts.
              1 \<le> month ! i \<and> month ! i \<le> 12 \<and>
              quarter ! i = \<lceil>real_of_int (month ! i) / 3\<rceil> \<and>
              (month ! i \<in> {1, 2, 3} \<longrightarrow> quarter ! i = 1) \<and>
              (month ! i \<in> {4, 5, 6} \<longrightarrow> quarter ! i = 2) \<and>
              (month ! i \<in> {7, 8, 9} \<longrightarrow> quarter ! i = 3) \<and>
              (month ! i \<in> {10, 11, 12} \<longrightarrow> quarter ! i = 4))"
proof -
  let ?m = "map dt_month ts"
  let ?q = "map dt_quarter ts"
  let ?out = "[(''day'', IntCol (map dt_day ts)),
          (''month'', IntCol ?m),
          (''year'', IntCol (map dt_year ts)),
          (''hour'', IntCol (map dt_hour ts)),
          (''quarter'', IntCol ?q),
          (''weekday'', IntCol (map dt_dayofweek ts)),
          (''weekday_name'', ObjectCol (map (\<lambda>t. Some (take 3 (dt_day_name t))) ts)),
          (''is_weekend'', IntCol (isin_as_int (map Some (map dt_dayofweek ts)) [5, 6]))]"
  have rows: "\<forall>i<length ts.
      1 \<le> ?m ! i \<and> ?m ! i \<le> 12 \<and> ?q ! i = \<lceil>real_of_int (?m ! i) / 3\<rceil> \<and>
      (?m ! i \<in> {1, 2, 3} \<longrightarrow> ?q ! i = 1) \<and> (?m ! i \<in> {4, 5, 6} \<longrightarrow> ?q ! i = 2) \<and>
      (?m ! i \<in> {7, 8, 9} \<longrightarrow> ?q ! i = 3) \<and> (?m ! i \<in> {10, 11, 12} \<longrightarrow> ?q ! i = 4)"
  proof (intro allI impI)
    fix i assume i: "i < length ts"
    have m: "?m ! i = dt_month (ts ! i)" and q: "?q ! i = dt_quarter (ts ! i)"
      using i by simp_all
    show "1 \<le> ?m ! i \<and> ?m ! i \<le> 12 \<and> ?q ! i = \<lceil>real_of_int (?m ! i) / 3\<rceil> \<and>
      (?m ! i \<in> {1, 2, 3} \<longrightarrow> ?q ! i = 1) \<and> (?m ! i \<in> {4, 5, 6} \<longrightarrow> ?q ! i = 2) \<and>
      (?m ! i \<in> {7, 8, 9} \<longrightarrow> ?q ! i = 3) \<and> (?m ! i \<in> {10, 11, 12} \<longrightarrow> ?q ! i = 4)"
      unfolding m q
      using dt_month_range [of "ts ! i"] dt_quarter_ceiling [of "ts ! i"]
        dt_quarter_of_month [of "ts ! i"]
      by blast
  qed
  show ?thesis
  proof (rule exI [of _ ?out], rule exI [of _ ?m], rule exI [of _ ?q], intro conjI)
    show "extract_parts df = Inr ?out" by (rule extract_parts_datetime [OF assms])
    show "getitem ?out ''month'' = Some (IntCol ?m)" by (simp add: getitem_def)
    show "getitem ?out ''quarter'' = Some (IntCol ?q)" by (simp add: getitem_def)
    show "length ?m = length ts" and "length ?q = length ts" by simp_all
    show "\<forall>i<length ts.
      1 \<le> ?m ! i \<and> ?m ! i \<le> 12 \<and> ?q ! i = \<lceil>real_of_int (?m ! i) / 3\<rceil> \<and>
      (?m ! i \<in> {1, 2, 3} \<longrightarrow> ?q ! i = 1) \<and> (?m ! i \<in> {4, 5, 6} \<longrightarrow> ?q ! i = 2) \<and>
      (?m ! i \<in> {7, 8, 9} \<longrightarrow> ?q ! i = 3) \<and> (?m ! i \<in> {10, 11, 12} \<longrightarrow> ?q ! i = 4)"
      by (rule rows)
  qed
qed

theorem extract_parts_quarter_witness:
  "\<exists>out month quarter.
     extract_parts sample_frame = Inr out \<and>
     getitem out ''month'' = Some (IntCol month) \<and>
     getitem out ''quarter'' = Some (IntCol quarter) \<and>
     length month = length sample_stamps \<and> length quarter = length sample_stamps \<and>
     (\<forall>i<length sample_stamps.
        1 \<le> month ! i \<and> month ! i \<le> 12 \<and>
        quarter ! i = \<lceil>real_of_int (month ! i) / 3\<rceil> \<and>
        (month ! i \<in> {1, 2, 3} \<longrightarrow> quarter ! i = 1) \<and>
        (month ! i \<in> {4, 5, 6} \<longrightarrow> quarter ! i = 2) \<and>
        (month ! i \<in> {7, 8, 9} \<longrightarrow> quarter ! i = 3) \<and>
        (month ! i \<in> {10, 11, 12} \<longrightarrow> quarter ! i = 4))"
  by (rule extract_parts_quarter) (simp add: sample_frame_def getitem_def)

text \<open>
  C4. On a table whose timestamp column is of datetime type and has no missing
  timestamp, \<^verbatim>\<open>extract_parts\<close> returns a table with exactly the eight derived
  columns, each with as many rows as the timestamp column, and without the timestamp
  column.
\<close>

theorem extract_parts_columns:
  assumes "getitem df ''timestamp'' = Some (DatetimeCol (map Some ts))"
  shows "\<exists>out. extract_parts df = Inr out \<and>
           columns out =
             [''day'', ''month'', ''year'', ''hour'', ''quarter'', ''weekday'',
              ''weekday_name'', ''is_weekend''] \<and>
           ncols out = 8 \<and> distinct (columns out) \<and>
           ''timestamp'' \<notin> set (columns out) \<and> getitem out ''timestamp'' = None \<and>
           (\<forall>c\<in>set out. series_len (snd c) = length ts)"
  unfolding extract_parts_datetime [OF assms]
  by (simp add: columns_def ncols_def getitem_def isin_as_int_def)

theorem extract_parts_columns_witness:
  "\<exists>out. extract_parts sample_frame = Inr out \<and>
     columns out =
       [''day'', ''month'', ''year'', ''hour'', ''quarter'', ''weekday'',
        ''weekday_name'', ''is_weekend''] \<and>
     ncols out = 8 \<and> distinct (columns out) \<and>
     ''timestamp'' \<notin> set (columns out) \<and> getitem out ''timestamp'' = None \<and>
     (\<forall>c\<in>set out. series_len (snd c) = length sample_stamps)"
  by (rule extract_parts_columns) (simp add: sample_frame_def getitem_def)







text \<open>
  C7, as amended. When some requested kind is not an allowed one, \<^verbatim>\<open>display\<close> draws
  no panel. When moreover every requested category is a column of the table, it raises
  \<^verbatim>\<open>KeyError\<close> with the list of all the kinds that are not allowed (InvalidKind); when
  a category is missing, the check of the categories comes first and the
  \<^verbatim>\<open>KeyError\<close> lists the missing columns instead.
\<close>

theorem display_invalid_kind:
  assumes "\<exists>k\<in>set kind. k \<notin> set allowed_kinds"
  shows "fst (display b df category kind title) = \<lparr>panels = [], shown = False\<rparr> \<and>
         (set category \<subseteq> set (columns df) \<longrightarrow>
            snd (display b df category kind title) =
              Some (KeyError (KindsNotAllowed (filter (\<lambda>k. k \<notin> set allowed_kinds) kind)))) \<and>
         (\<not> set category \<subseteq> set (columns df) \<longrightarrow>
            snd (display b df category kind title) =
              Some (KeyError (ColumnsMissing
                (filter (\<lambda>cat. cat \<notin> set (columns df)) category))))"
proof -
  from assms have k: "filter (\<lambda>k. k \<notin> set allowed_kinds) kind \<noteq> []"
    by (auto simp: filter_empty_conv)
  show ?thesis
  proof (cases "set category \<subseteq> set (columns df)")
    case True
    then have "filter (\<lambda>cat. cat \<notin> set (columns df)) category = []"
      by (simp only: filter_missing_empty)
    with k True show ?thesis by (simp add: display_def Let_def)
  next
    case False
    then have "filter (\<lambda>cat. cat \<notin> set (columns df)) category \<noteq> []"
      by (simp add: filter_missing_empty)
    with False show ?thesis by (simp add: display_def Let_def)
  qed
qed

theorem display_invalid_kind_witness:
  "display quiet_backend sample_table [''weekday'', ''weekday_name''] [''bar'', ''triangle'']
     [''Days'', ''Names''] =
   (\<lparr>panels = [], shown = False\<rparr>, Some (KeyError (KindsNotAllowed [''triangle''])))"
  using display_invalid_kind [of "[''bar'', ''triangle'']" quiet_backend sample_table
      "[''weekday'', ''weekday_name'']" "[''Days'', ''Names'']"]
  by (simp add: prod_eq_iff sample_table_def columns_def allowed_kinds_def)

text \<open>
  C7 as stated fails: with a category that is no column and the kind \<^verbatim>\<open>triangle\<close>, the
  exception lists the missing column, not the invalid kind.
\<close>

theorem display_invalid_kind_counterexample:
  "snd (display quiet_backend sample_table [''minute''] [''triangle''] [''Minutes'']) =
     Some (KeyError (ColumnsMissing [''minute''])) \<and>
   snd (display quiet_backend sample_table [''minute''] [''triangle''] [''Minutes'']) \<noteq>
     Some (KeyError (KindsNotAllowed [''triangle'']))"
  by (simp add: display_def sample_table_def columns_def allowed_kinds_def)

text \<open>
  C8. When \<^verbatim>\<open>pd.date_range\<close> returns the 15 timestamps that start at
  2025-09-16 02:35:00 and are 14 hours apart, \<^verbatim>\<open>example_main_synthetic\<close> prints a
  table of 8 columns and 15 rows whose first weekday name is \<^verbatim>\<open>Tue\<close>.
\<close>

theorem synthetic_example:
  assumes "date_range ''2025-09-16 02:35:00'' 15 ''14h'' = Inr example_stamps"
  shows "\<exists>cv e names.
           example_main_synthetic date_range conv b = ([Table example_result], cv, e) \<and>
           ncols example_result = 8 \<and>
           (\<forall>c\<in>set example_result. series_len (snd c) = 15) \<and>
           getitem example_result ''weekday_name'' = Some (ObjectCol names) \<and>
           names ! 0 = Some ''Tue''"
proof -
  have create: "create_periodic_dataframe date_range ''2025-09-16 02:35:00'' 15 ''14h'' =
      ([], Some [(''timestamp'', DatetimeCol (map Some example_stamps))])"
    using assms by (simp add: create_periodic_dataframe_def)
  have conv: "convert_to_datetime conv [(''timestamp'', DatetimeCol (map Some example_stamps))] =
      Inr [(''timestamp'', DatetimeCol (map Some example_stamps))]"
    by (simp add: convert_to_datetime_def getitem_def)
  have main: "example_main_synthetic date_range conv b = show_result b [] example_result"
    by (simp add: example_main_synthetic_def create conv example_table)
  obtain cv e where "show_result b [] example_result = ([Table example_result], cv, e)"
    by (cases "display b example_result [''weekday_name'', ''weekday_name'']
        [''bar'', ''pie''] [''Activity Count by Day of Week'', ''Days of the week'']")
      (simp add: show_result_def)
  with main have run: "example_main_synthetic date_range conv b =
      ([Table example_result], cv, e)" by simp
  from example_result_names obtain names where
    "getitem example_result ''weekday_name'' = Some (ObjectCol names)" "names ! 0 = Some ''Tue''"
    by blast
  with run example_result_shape show ?thesis by blast
qed

theorem synthetic_example_witness:
  "\<exists>cv e names.
     example_main_synthetic (\<lambda>start periods freq. Inr example_stamps) sample_conv
       quiet_backend = ([Table example_result], cv, e) \<and>
     ncols example_result = 8 \<and>
     (\<forall>c\<in>set example_result. series_len (snd c) = 15) \<and>
     getitem example_result ''weekday_name'' = Some (ObjectCol names) \<and>
     names ! 0 = Some ''Tue''"
  by (rule synthetic_example) simp

text \<open>
  C9. \<^verbatim>\<open>display\<close> does not compare the lengths of its lists. When every category is a
  column, every kind is allowed, the plotting library does not raise, and the list of
  kinds or the list of titles is shorter than the list of categories, both checks pass
  and the loop raises \<^verbatim>\<open>IndexError\<close> at the first index past the shorter list, after the
  panels before it have been drawn and before the figure is shown.
\<close>

theorem display_short_lists:
  assumes "set category \<subseteq> set (columns df)"
    and "set kind \<subseteq> set allowed_kinds"
    and "subplots b (length category) = None"
    and "\<forall>col k t. plot b col k t = None"
    and "min (length kind) (length title) < length category"
  shows "snd (display b df category kind title) = Some IndexError \<and>
         \<not> shown (fst (display b df category kind title)) \<and>
         length (panels (fst (display b df category kind title))) =
           min (length kind) (length title)"
proof -
  from plot_loop_short [OF assms(1) assms(4) refl, where i = 0 and n = "length category"
      and kind = kind and title = title and drawn = "[]"] assms(5)
  obtain drawn where d:
    "plot_loop b df category kind title [0..<length category] [] = (drawn, Some IndexError)"
    "length drawn = min (length kind) (length title)" by auto
  have "filter (\<lambda>cat. cat \<notin> set (columns df)) category = []"
    using assms(1) by (simp only: filter_missing_empty)
  moreover have "filter (\<lambda>k. k \<notin> set allowed_kinds) kind = []"
    using assms(2) by (simp only: filter_kinds_empty)
  ultimately show ?thesis using d assms(3) by (simp add: display_def Let_def)
qed

theorem display_short_lists_witness:
  "snd (display quiet_backend sample_table [''weekday_name'', ''weekday_name''] [''bar'']
     [''Days'', ''Names'']) = Some IndexError \<and>
   \<not> shown (fst (display quiet_backend sample_table [''weekday_name'', ''weekday_name'']
     [''bar''] [''Days'', ''Names''])) \<and>
   length (panels (fst (display quiet_backend sample_table
     [''weekday_name'', ''weekday_name''] [''bar''] [''Days'', ''Names'']))) = 1"
  using display_short_lists [of "[''weekday_name'', ''weekday_name'']" sample_table
      "[''bar'']" quiet_backend "[''Days'', ''Names'']"]
  by (simp add: sample_table_def columns_def allowed_kinds_def quiet_backend_def)



end
